theory Spec2Isabelle
  imports Main
begin

section \<open>Data model of the license server (index.js)\<close>

text \<open>
  Strings are lists of 8-bit code units. A timestamp string produced by
  \<^verbatim>\<open>new Date(t).toISOString()\<close> is modelled by its millisecond time value \<open>t\<close>.
  A request parameter that may be \<^verbatim>\<open>undefined\<close> is a \<open>string option\<close>.
\<close>

text \<open>JavaScript truthiness of an optional string: \<^verbatim>\<open>undefined\<close> and \<^verbatim>\<open>''\<close> are falsy.\<close>

definition truthy :: "string option \<Rightarrow> bool" where
  "truthy x = (case x of None \<Rightarrow> False | Some s \<Rightarrow> s \<noteq> [])"

text \<open>An entry of a record's \<^verbatim>\<open>history\<close> array.\<close>

record history_entry =
  action :: string
  date :: int
  details :: "string option"
  ip :: "string option"
  admin :: "string option"

text \<open>The \<^verbatim>\<open>activatedAt\<close> field: \<^verbatim>\<open>''\<close> at creation and after a reset, an ISO string once registered.\<close>

datatype stamp = Blank | Iso int

text \<open>
  A document of the \<^verbatim>\<open>licenses\<close> collection, with the fields its writers give it.
  \<open>hwid = []\<close> is the unbound record; \<open>expiry = None\<close> is \<^verbatim>\<open>expiry: null\<close>.
  \<open>createdBy\<close> is \<^verbatim>\<open>req.session.user\<close>. The last four fields are absent (\<open>None\<close>)
  until some writer sets them.
\<close>

record license =
  hwid :: string
  activatedAt :: stamp
  expiry :: "int option"
  history :: "history_entry list"
  createdAt :: int
  createdBy :: "string option"
  batchId :: "int option"
  lastValidated :: "int option"
  activationIP :: "string option"
  deviceInfo :: "string option"

text \<open>The document \<^verbatim>\<open>settings/general\<close>; a field that the document lacks is \<open>None\<close>.\<close>

record settings =
  maxDevicesPerLicense :: "int option"
  allowHwidChange :: "bool option"
  autoExpireInDays :: "int option"
  maintenanceMode :: "bool option"
  apiEnabled :: "bool option"

text \<open>
  The \<^verbatim>\<open>hwids\<close> field of the document \<^verbatim>\<open>settings/banlist\<close>: the array that
  \<^verbatim>\<open>saveBanlist\<close> writes, or some other truthy value, which has no \<^verbatim>\<open>includes\<close> method.
\<close>

datatype hwids_field = HwidArray "string list" | NotAnArray

text \<open>
  An entry of the collection \<^verbatim>\<open>activityLog\<close>. Its \<^verbatim>\<open>timestamp\<close> field is filled in
  by Firestore and is left out.
\<close>

record activity =
  log_action :: string
  log_details :: string
  log_ip :: string
  log_userAgent :: string
  log_date :: int

text \<open>The Firestore operations the handlers issue.\<close>

datatype db_call =
    LicensesGetAll
  | LicenseGet string
  | LicenseSet string
  | BanlistGet
  | BanlistSet
  | SettingsGet
  | ActivityAdd

text \<open>
  The store. \<open>licenses\<close> lists the documents of the collection with their ids
  (Firestore keeps the ids unique, and so does \<open>set_doc\<close> below);
  \<open>banlist_doc = None\<close> and \<open>settings_doc = None\<close> stand for a missing document
  (for the ban list also for a falsy \<^verbatim>\<open>hwids\<close> field). \<open>calls\<close> records every Firestore
  operation issued so far, in order.
\<close>

record world =
  licenses :: "(string \<times> license) list"
  banlist_doc :: "hwids_field option"
  settings_doc :: "settings option"
  activityLog :: "activity list"
  calls :: "db_call list"

text \<open>Which Firestore operations reject during a request.\<close>

type_synonym faults = "db_call \<Rightarrow> bool"

definition no_faults :: faults where
  "no_faults = (\<lambda>c. False)"

text \<open>What a handler reads from the request, and each \<^verbatim>\<open>new Date()\<close> it evaluates.\<close>

record request =
  query_license :: "string option"
  query_hwid :: "string option"
  req_ip :: string
  req_userAgent :: "string option"

record clock =
  t_log :: int
  t_expiry :: int
  t_activated :: int
  t_validated :: int
  t_history :: int

datatype outcome =
    FAILED | API_DISABLED | BANNED | INVALID_LICENSE | EXPIRED | VALID | HWID_MISMATCH
  | ALREADY_REGISTERED | HWID_IN_USE | SUCCESS | ERROR

datatype exn = TypeError | RangeError

section \<open>Database helpers\<close>

definition issue :: "db_call \<Rightarrow> world \<Rightarrow> world" where
  "issue c w = w\<lparr>calls := calls w @ [c]\<rparr>"

text \<open>\<^verbatim>\<open>getLicenses\<close>: all documents, \<^verbatim>\<open>{}\<close> when the read fails.\<close>

definition getLicenses :: "faults \<Rightarrow> world \<Rightarrow> (string \<times> license) list \<times> world" where
  "getLicenses dn w =
     (if dn LicensesGetAll then ([], issue LicensesGetAll w)
      else (licenses w, issue LicensesGetAll w))"

text \<open>\<^verbatim>\<open>getLicense\<close>: the document, \<^verbatim>\<open>null\<close> when it does not exist or the read fails.\<close>

definition getLicense :: "faults \<Rightarrow> string \<Rightarrow> world \<Rightarrow> license option \<times> world" where
  "getLicense dn licenseKey w =
     (if dn (LicenseGet licenseKey) then (None, issue (LicenseGet licenseKey) w)
      else (map_of (licenses w) licenseKey, issue (LicenseGet licenseKey) w))"

text \<open>
  \<^verbatim>\<open>set(data, { merge: true })\<close> on an existing document: the fields of \<open>new\<close> replace
  those of \<open>old\<close>, and a field that \<open>new\<close> lacks keeps its old value.
\<close>

definition merge_license :: "license \<Rightarrow> license \<Rightarrow> license" where
  "merge_license old new =
     new\<lparr>batchId := (case batchId new of None \<Rightarrow> batchId old | Some b \<Rightarrow> Some b),
         lastValidated := (case lastValidated new of None \<Rightarrow> lastValidated old | Some t \<Rightarrow> Some t),
         activationIP := (case activationIP new of None \<Rightarrow> activationIP old | Some a \<Rightarrow> Some a),
         deviceInfo := (case deviceInfo new of None \<Rightarrow> deviceInfo old | Some d \<Rightarrow> Some d)\<rparr>"

fun set_doc :: "string \<Rightarrow> license \<Rightarrow> (string \<times> license) list \<Rightarrow> (string \<times> license) list" where
  "set_doc licenseKey data [] = [(licenseKey, data)]"
| "set_doc licenseKey data ((k, d) # rest) =
     (if k = licenseKey then (k, merge_license d data) # rest
      else (k, d) # set_doc licenseKey data rest)"

text \<open>\<^verbatim>\<open>saveLicense\<close>: \<^verbatim>\<open>true\<close> after the write, \<^verbatim>\<open>false\<close> when it fails.\<close>

definition saveLicense :: "faults \<Rightarrow> string \<Rightarrow> license \<Rightarrow> world \<Rightarrow> bool \<times> world" where
  "saveLicense dn licenseKey data w =
     (if dn (LicenseSet licenseKey) then (False, issue (LicenseSet licenseKey) w)
      else (True, (issue (LicenseSet licenseKey) w)
                    \<lparr>licenses := set_doc licenseKey data (licenses w)\<rparr>))"

text \<open>\<^verbatim>\<open>getBanlist\<close>: \<^verbatim>\<open>doc.data().hwids || []\<close>, and \<^verbatim>\<open>[]\<close> when the read fails.\<close>

definition getBanlist :: "faults \<Rightarrow> world \<Rightarrow> hwids_field \<times> world" where
  "getBanlist dn w =
     (if dn BanlistGet then (HwidArray [], issue BanlistGet w)
      else (case banlist_doc w of
              None \<Rightarrow> (HwidArray [], issue BanlistGet w)
            | Some f \<Rightarrow> (f, issue BanlistGet w)))"

definition saveBanlist :: "faults \<Rightarrow> string list \<Rightarrow> world \<Rightarrow> bool \<times> world" where
  "saveBanlist dn banlist w =
     (if dn BanlistSet then (False, issue BanlistSet w)
      else (True, (issue BanlistSet w)\<lparr>banlist_doc := Some (HwidArray banlist)\<rparr>))"

text \<open>
  \<^verbatim>\<open>logActivity(action, details, ip = 'unknown', userAgent = 'unknown')\<close>; \<open>now\<close> is the
  \<^verbatim>\<open>new Date()\<close> of the entry's \<^verbatim>\<open>date\<close>. A failed insert is logged to the console only.
\<close>

definition logActivity ::
  "faults \<Rightarrow> int \<Rightarrow> string \<Rightarrow> string \<Rightarrow> string option \<Rightarrow> string option \<Rightarrow> world \<Rightarrow> world" where
  "logActivity dn now act det ipaddr ua w =
     (if dn ActivityAdd then issue ActivityAdd w
      else (issue ActivityAdd w)
             \<lparr>activityLog := activityLog w @
                [\<lparr>log_action = act, log_details = det,
                  log_ip = (case ipaddr of None \<Rightarrow> ''unknown'' | Some i \<Rightarrow> i),
                  log_userAgent = (case ua of None \<Rightarrow> ''unknown'' | Some u \<Rightarrow> u),
                  log_date = now\<rparr>]\<rparr>)"

definition default_settings :: settings where
  "default_settings =
     \<lparr>maxDevicesPerLicense = Some 1, allowHwidChange = Some True, autoExpireInDays = Some 30,
      maintenanceMode = Some False, apiEnabled = Some True\<rparr>"

definition empty_settings :: settings where
  "empty_settings =
     \<lparr>maxDevicesPerLicense = None, allowHwidChange = None, autoExpireInDays = None,
      maintenanceMode = None, apiEnabled = None\<rparr>"

text \<open>\<^verbatim>\<open>getSettings\<close>: the document, the defaults when it is missing, \<^verbatim>\<open>{}\<close> when the read fails.\<close>

definition getSettings :: "faults \<Rightarrow> world \<Rightarrow> settings \<times> world" where
  "getSettings dn w =
     (if dn SettingsGet then (empty_settings, issue SettingsGet w)
      else (case settings_doc w of
              Some s \<Rightarrow> (s, issue SettingsGet w)
            | None \<Rightarrow> (default_settings, issue SettingsGet w)))"

section \<open>Utility functions\<close>

text \<open>\<^verbatim>\<open>isLicenseExpired\<close>; \<open>now\<close> is the value of \<^verbatim>\<open>new Date()\<close>.\<close>

definition isLicenseExpired :: "license \<Rightarrow> int \<Rightarrow> bool" where
  "isLicenseExpired lic now = (case expiry lic of None \<Rightarrow> False | Some e \<Rightarrow> now > e)"

text \<open>\<^verbatim>\<open>isHWIDBanned\<close>: \<^verbatim>\<open>banlist.includes(hwid)\<close>, a TypeError when there is no such method.\<close>

definition isHWIDBanned :: "string \<Rightarrow> hwids_field \<Rightarrow> exn + bool" where
  "isHWIDBanned hw banlist =
     (case banlist of HwidArray xs \<Rightarrow> Inr (hw \<in> set xs) | NotAnArray \<Rightarrow> Inl TypeError)"

section \<open>The validation API\<close>

text \<open>\<^verbatim>\<open>!settings.apiEnabled\<close>.\<close>

definition api_off :: "settings \<Rightarrow> bool" where
  "api_off s = (apiEnabled s \<noteq> Some True)"

text \<open>The body of the \<^verbatim>\<open>try\<close> block of \<^verbatim>\<open>GET /api/validate\<close>.\<close>

definition validate_body ::
  "faults \<Rightarrow> clock \<Rightarrow> request \<Rightarrow> string \<Rightarrow> string \<Rightarrow> world \<Rightarrow> (exn + outcome) \<times> world" where
  "validate_body dn c r lk hw w0 =
     (let w1 = logActivity dn (t_log c) ''API_VALIDATE''
                 (''License: '' @ lk @ '' HWID: '' @ hw) (Some (req_ip r)) (req_userAgent r) w0;
          (s, w2) = getSettings dn w1
      in if api_off s then (Inr API_DISABLED, w2)
         else
           let (banlist, w3) = getBanlist dn w2
           in case isHWIDBanned hw banlist of
                Inl e \<Rightarrow> (Inl e, w3)
              | Inr True \<Rightarrow> (Inr BANNED, w3)
              | Inr False \<Rightarrow>
                  (let (l, w4) = getLicense dn lk w3
                   in case l of
                        None \<Rightarrow> (Inr INVALID_LICENSE, w4)
                      | Some lic \<Rightarrow>
                          if isLicenseExpired lic (t_expiry c) then (Inr EXPIRED, w4)
                          else if hwid lic = hw then
                            (Inr VALID,
                             snd (saveLicense dn lk
                                    (lic\<lparr>lastValidated := Some (t_validated c)\<rparr>) w4))
                          else (Inr HWID_MISMATCH, w4)))"

text \<open>The \<^verbatim>\<open>catch\<close> of both API handlers: whatever the body throws is answered \<^verbatim>\<open>ERROR\<close>.\<close>

definition catch_error :: "(exn + outcome) \<times> world \<Rightarrow> outcome \<times> world" where
  "catch_error x = (case fst x of Inl e \<Rightarrow> (ERROR, snd x) | Inr out \<Rightarrow> (out, snd x))"

text \<open>\<^verbatim>\<open>GET /api/validate\<close>.\<close>

definition api_validate :: "faults \<Rightarrow> clock \<Rightarrow> request \<Rightarrow> world \<Rightarrow> outcome \<times> world" where
  "api_validate dn c r w =
     (if \<not> truthy (query_license r) \<or> \<not> truthy (query_hwid r) then (FAILED, w)
      else case (query_license r, query_hwid r) of
             (Some lk, Some hw) \<Rightarrow> catch_error (validate_body dn c r lk hw w)
           | _ \<Rightarrow> (FAILED, w))"

text \<open>
  The loop of \<^verbatim>\<open>GET /api/register\<close> over \<^verbatim>\<open>Object.entries(allLicenses)\<close>: whether some
  entry with another key has this hwid.
\<close>

fun hwid_used_elsewhere :: "(string \<times> license) list \<Rightarrow> string \<Rightarrow> string \<Rightarrow> bool" where
  "hwid_used_elsewhere [] hw lk = False"
| "hwid_used_elsewhere ((licKey, licData) # rest) hw lk =
     (if hwid licData = hw \<and> licKey \<noteq> lk then True else hwid_used_elsewhere rest hw lk)"

text \<open>The \<^verbatim>\<open>REGISTER\<close> entry that registration appends to \<^verbatim>\<open>history\<close>.\<close>

definition register_entry :: "clock \<Rightarrow> request \<Rightarrow> string \<Rightarrow> history_entry" where
  "register_entry c r hw =
     \<lparr>action = ''REGISTER'', date = t_history c, details = Some hw,
      ip = Some (req_ip r), admin = None\<rparr>"

text \<open>The record \<^verbatim>\<open>updatedLic\<close> that registration writes.\<close>

definition updatedLic :: "clock \<Rightarrow> request \<Rightarrow> string \<Rightarrow> license \<Rightarrow> license" where
  "updatedLic c r hw lic =
     lic\<lparr>hwid := hw,
         activatedAt := Iso (t_activated c),
         lastValidated := Some (t_validated c),
         activationIP := Some (req_ip r),
         deviceInfo := Some (case req_userAgent r of
                               None \<Rightarrow> ''Unknown''
                             | Some u \<Rightarrow> if u = [] then ''Unknown'' else u),
         history := history lic @ [register_entry c r hw]\<rparr>"

text \<open>The body of the \<^verbatim>\<open>try\<close> block of \<^verbatim>\<open>GET /api/register\<close>.\<close>

definition register_body ::
  "faults \<Rightarrow> clock \<Rightarrow> request \<Rightarrow> string \<Rightarrow> string \<Rightarrow> world \<Rightarrow> (exn + outcome) \<times> world" where
  "register_body dn c r lk hw w0 =
     (let w1 = logActivity dn (t_log c) ''API_REGISTER''
                 (''License: '' @ lk @ '' HWID: '' @ hw) (Some (req_ip r)) (req_userAgent r) w0;
          (s, w2) = getSettings dn w1
      in if api_off s then (Inr API_DISABLED, w2)
         else
           let (banlist, w3) = getBanlist dn w2
           in case isHWIDBanned hw banlist of
                Inl e \<Rightarrow> (Inl e, w3)
              | Inr True \<Rightarrow> (Inr BANNED, w3)
              | Inr False \<Rightarrow>
                  (let (l, w4) = getLicense dn lk w3
                   in case l of
                        None \<Rightarrow> (Inr INVALID_LICENSE, w4)
                      | Some lic \<Rightarrow>
                          if isLicenseExpired lic (t_expiry c) then (Inr EXPIRED, w4)
                          else if hwid lic \<noteq> [] \<and> hwid lic \<noteq> hw then
                            (Inr ALREADY_REGISTERED, w4)
                          else
                            let (allLicenses, w5) = getLicenses dn w4
                            in if hwid_used_elsewhere allLicenses hw lk then (Inr HWID_IN_USE, w5)
                               else (Inr SUCCESS,
                                     snd (saveLicense dn lk (updatedLic c r hw lic) w5))))"

text \<open>\<^verbatim>\<open>GET /api/register\<close>.\<close>

definition api_register :: "faults \<Rightarrow> clock \<Rightarrow> request \<Rightarrow> world \<Rightarrow> outcome \<times> world" where
  "api_register dn c r w =
     (if \<not> truthy (query_license r) \<or> \<not> truthy (query_hwid r) then (FAILED, w)
      else case (query_license r, query_hwid r) of
             (Some lk, Some hw) \<Rightarrow> catch_error (register_body dn c r lk hw w)
           | _ \<Rightarrow> (FAILED, w))"

section \<open>License keys\<close>

text \<open>
  \<^verbatim>\<open>crypto.randomBytes(4)\<close> yields four bytes; they are an input of the model.
  \<^verbatim>\<open>.toString('hex').toUpperCase()\<close> writes each byte as two upper-case hex digits.
\<close>

type_synonym bytes4 = "nat \<times> nat \<times> nat \<times> nat"

definition hex_digit :: "nat \<Rightarrow> char" where
  "hex_digit n = ''0123456789ABCDEF'' ! (n mod 16)"

definition hex_byte :: "nat \<Rightarrow> string" where
  "hex_byte b = [hex_digit ((b mod 256) div 16), hex_digit (b mod 16)]"

definition toHexUpper :: "bytes4 \<Rightarrow> string" where
  "toHexUpper bs = (case bs of (a, b, c, d) \<Rightarrow> hex_byte a @ hex_byte b @ hex_byte c @ hex_byte d)"

text \<open>\<^verbatim>\<open>generateSecureLicenseKey(prefix)\<close>, given the two random blocks it draws.\<close>

definition generateSecureLicenseKey :: "string \<Rightarrow> bytes4 \<Rightarrow> bytes4 \<Rightarrow> string" where
  "generateSecureLicenseKey prefix r1 r2 = prefix @ ''-'' @ toHexUpper r1 @ ''-'' @ toHexUpper r2"

section \<open>The admin actions\<close>

text \<open>\<^verbatim>\<open>String(n)\<close> for an integer, as a template literal prints it.\<close>

fun dec_nat :: "nat \<Rightarrow> string" where
  "dec_nat n = (if n < 10 then [''0123456789'' ! n] else dec_nat (n div 10) @ [''0123456789'' ! (n mod 10)])"

definition dec_int :: "int \<Rightarrow> string" where
  "dec_int i = (if i < 0 then ''-'' @ dec_nat (nat (- i)) else dec_nat (nat i))"

text \<open>
  The value of \<^verbatim>\<open>req.body.expiry\<close>: falsy, a string that \<^verbatim>\<open>new Date\<close> cannot read
  (\<^verbatim>\<open>toISOString\<close> then throws a RangeError), or a string that it reads as a time.
\<close>

datatype date_input = NoDate | BadDate | GoodDate int

text \<open>
  What the admin handlers read from the request. \<open>body_count\<close> is the value of
  \<^verbatim>\<open>parseInt(req.body.count)\<close>, with \<open>None\<close> for NaN.
\<close>

record admin_request =
  session_user :: "string option"
  body_license :: "string option"
  body_expiry :: date_input
  body_count :: "int option"
  body_prefix :: "string option"
  body_hwid :: "string option"
  body_reason :: "string option"
  adm_ip :: string
  adm_userAgent :: "string option"

text \<open>
  What one key generation draws from its environment: the two random blocks, the
  \<^verbatim>\<open>new Date()\<close> of \<^verbatim>\<open>createdAt\<close> and the \<^verbatim>\<open>Date.now()\<close> of \<^verbatim>\<open>batchId\<close>.
\<close>

record gen_env =
  rnd1 :: bytes4
  rnd2 :: bytes4
  g_created :: int
  g_batch :: int

datatype admin_response = Redirect string | Alert string

text \<open>\<^verbatim>\<open>requireLogin\<close>, with \<^verbatim>\<open>CONFIG.ADMIN_USERNAME\<close> as a parameter.\<close>

definition requireLogin ::
  "string \<Rightarrow> admin_request \<Rightarrow> (world \<Rightarrow> admin_response \<times> world) \<Rightarrow> world \<Rightarrow>
   admin_response \<times> world" where
  "requireLogin admin_username r handler w =
     (if session_user r = Some admin_username then handler w
      else (Redirect ''/admin/login'', w))"

text \<open>
  \<^verbatim>\<open>POST /admin/generate-license\<close>. \<open>toISOString\<close> prints a time value as an ISO
  string and \<open>t\<close> is the \<^verbatim>\<open>new Date()\<close> of the activity entry.
\<close>

definition generate_license ::
  "faults \<Rightarrow> (int \<Rightarrow> string) \<Rightarrow> gen_env \<Rightarrow> int \<Rightarrow> admin_request \<Rightarrow> world \<Rightarrow>
   admin_response \<times> world" where
  "generate_license dn toISOString e t r w =
     (let lk = (case body_license r of
                  None \<Rightarrow> generateSecureLicenseKey ''LIC'' (rnd1 e) (rnd2 e)
                | Some s \<Rightarrow> if s = [] then generateSecureLicenseKey ''LIC'' (rnd1 e) (rnd2 e)
                            else s);
          (existingLicense, w1) = getLicense dn lk w
      in case existingLicense of
           Some l \<Rightarrow> (Alert ''License already exists!'', w1)
         | None \<Rightarrow>
             (case body_expiry r of
                BadDate \<Rightarrow> (Alert ''Error generating license!'', w1)
              | d \<Rightarrow>
                  let ex = (case d of GoodDate x \<Rightarrow> Some x | _ \<Rightarrow> None);
                      licenseData =
                        \<lparr>hwid = [], activatedAt = Blank, expiry = ex, history = [],
                         createdAt = g_created e, createdBy = session_user r, batchId = None,
                         lastValidated = None, activationIP = None, deviceInfo = None\<rparr>;
                      w2 = snd (saveLicense dn lk licenseData w1);
                      w3 = logActivity dn t ''LICENSE_GENERATED''
                             (''License: '' @ lk @ '' Expiry: '' @
                                (case ex of None \<Rightarrow> ''Never'' | Some x \<Rightarrow> toISOString x))
                             (Some (adm_ip r)) (adm_userAgent r) w2
                  in (Redirect ''/admin'', w3)))"

definition post_generate_license ::
  "string \<Rightarrow> faults \<Rightarrow> (int \<Rightarrow> string) \<Rightarrow> gen_env \<Rightarrow> int \<Rightarrow> admin_request \<Rightarrow> world \<Rightarrow>
   admin_response \<times> world" where
  "post_generate_license admin_username dn toISOString e t r =
     requireLogin admin_username r (generate_license dn toISOString e t r)"

text \<open>
  The loop of \<^verbatim>\<open>POST /admin/bulk-generate\<close>; \<open>envs i\<close> is what iteration \<open>i\<close> draws,
  and the result carries the array \<^verbatim>\<open>licenses\<close> of the generated keys.
\<close>

function bulk_loop ::
  "faults \<Rightarrow> (nat \<Rightarrow> gen_env) \<Rightarrow> string \<Rightarrow> string option \<Rightarrow> int \<Rightarrow> nat \<Rightarrow> world \<Rightarrow>
   string list \<Rightarrow> world \<times> string list" where
  "bulk_loop dn envs prefix user count i w acc =
     (if int i < count then
        let lk = generateSecureLicenseKey prefix (rnd1 (envs i)) (rnd2 (envs i));
            licenseData =
              \<lparr>hwid = [], activatedAt = Blank, expiry = None, history = [],
               createdAt = g_created (envs i), createdBy = user,
               batchId = Some (g_batch (envs i)),
               lastValidated = None, activationIP = None, deviceInfo = None\<rparr>;
            w' = snd (saveLicense dn lk licenseData w)
        in bulk_loop dn envs prefix user count (Suc i) w' (acc @ [lk])
      else (w, acc))"
  by pat_completeness auto
termination
  by (relation "measure (\<lambda>(dn, envs, prefix, user, count, i, w, acc). nat (count - int i))") auto

text \<open>\<^verbatim>\<open>POST /admin/bulk-generate\<close>.\<close>

definition bulk_generate ::
  "faults \<Rightarrow> (nat \<Rightarrow> gen_env) \<Rightarrow> int \<Rightarrow> admin_request \<Rightarrow> world \<Rightarrow> admin_response \<times> world" where
  "bulk_generate dn envs t r w =
     (let count = (case body_count r of None \<Rightarrow> 1 | Some n \<Rightarrow> if n = 0 then 1 else n);
          prefix = (case body_prefix r of None \<Rightarrow> ''LIC'' | Some p \<Rightarrow> if p = [] then ''LIC'' else p)
      in if count > 100 then (Alert ''Maximum 100 licenses at once!'', w)
         else
           let (w1, generated) = bulk_loop dn envs prefix (session_user r) count 0 w [];
               w2 = logActivity dn t ''BULK_GENERATE''
                      (''Generated '' @ dec_int count @ '' licenses with prefix: '' @ prefix)
                      (Some (adm_ip r)) (adm_userAgent r) w1
           in (Redirect ''/admin'', w2))"

definition post_bulk_generate ::
  "string \<Rightarrow> faults \<Rightarrow> (nat \<Rightarrow> gen_env) \<Rightarrow> int \<Rightarrow> admin_request \<Rightarrow> world \<Rightarrow>
   admin_response \<times> world" where
  "post_bulk_generate admin_username dn envs t r =
     requireLogin admin_username r (bulk_generate dn envs t r)"

text \<open>
  \<^verbatim>\<open>String.prototype.trim\<close>: the white space and line terminators among the 8-bit code
  units are TAB, LF, VT, FF, CR, SP and NBSP.
\<close>

definition is_ws :: "char \<Rightarrow> bool" where
  "is_ws ch = (ch \<in> set [CHR 0x09, CHR 0x0A, CHR 0x0B, CHR 0x0C, CHR 0x0D, CHR 0x20, CHR 0xA0])"

definition trim :: "string \<Rightarrow> string" where
  "trim s = rev (dropWhile is_ws (rev (dropWhile is_ws s)))"

text \<open>\<^verbatim>\<open>POST /admin/ban-hwid\<close>; \<open>t\<close> is the \<^verbatim>\<open>new Date()\<close> of the activity entry.\<close>

definition ban_hwid :: "faults \<Rightarrow> int \<Rightarrow> admin_request \<Rightarrow> world \<Rightarrow> admin_response \<times> world" where
  "ban_hwid dn t r w =
     (case body_hwid r of
        None \<Rightarrow> (Redirect ''/admin'', w)
      | Some hw \<Rightarrow>
          if hw = [] \<or> trim hw = [] then (Redirect ''/admin'', w)
          else
            let (banlist, w1) = getBanlist dn w
            in case banlist of
                 NotAnArray \<Rightarrow> (Alert ''Error banning HWID!'', w1)
               | HwidArray xs \<Rightarrow>
                   if trim hw \<in> set xs then (Redirect ''/admin'', w1)
                   else
                     let w2 = snd (saveBanlist dn (xs @ [trim hw]) w1);
                         w3 = logActivity dn t ''HWID_BANNED''
                                (''HWID: '' @ hw @ '' Reason: '' @
                                   (case body_reason r of
                                      None \<Rightarrow> ''No reason''
                                    | Some s \<Rightarrow> if s = [] then ''No reason'' else s))
                                (Some (adm_ip r)) (adm_userAgent r) w2
                     in (Redirect ''/admin'', w3))"

definition post_ban_hwid ::
  "string \<Rightarrow> faults \<Rightarrow> int \<Rightarrow> admin_request \<Rightarrow> world \<Rightarrow> admin_response \<times> world" where
  "post_ban_hwid admin_username dn t r = requireLogin admin_username r (ban_hwid dn t r)"

section \<open>Views of the store and example data\<close>

text \<open>The settings in force: the stored document, or the defaults when there is none.\<close>

definition settings_of :: "world \<Rightarrow> settings" where
  "settings_of w = (case settings_doc w of None \<Rightarrow> default_settings | Some s \<Rightarrow> s)"

text \<open>The banned hwids of a store.\<close>

definition banned_hwids :: "world \<Rightarrow> string list" where
  "banned_hwids w = (case banlist_doc w of Some (HwidArray xs) \<Rightarrow> xs | _ \<Rightarrow> [])"

text \<open>What each read helper returns under the faults \<open>dn\<close>.\<close>

definition seen_settings :: "faults \<Rightarrow> world \<Rightarrow> settings" where
  "seen_settings dn w = (if dn SettingsGet then empty_settings else settings_of w)"

definition seen_banlist :: "faults \<Rightarrow> world \<Rightarrow> hwids_field" where
  "seen_banlist dn w =
     (if dn BanlistGet then HwidArray []
      else (case banlist_doc w of None \<Rightarrow> HwidArray [] | Some f \<Rightarrow> f))"

definition seen_license :: "faults \<Rightarrow> string \<Rightarrow> world \<Rightarrow> license option" where
  "seen_license dn k w = (if dn (LicenseGet k) then None else map_of (licenses w) k)"

definition seen_licenses :: "faults \<Rightarrow> world \<Rightarrow> (string \<times> license) list" where
  "seen_licenses dn w = (if dn LicensesGetAll then [] else licenses w)"

text \<open>The decision of each handler as a function of what the helpers returned.\<close>

definition validate_outcome ::
  "clock \<Rightarrow> string \<Rightarrow> settings \<Rightarrow> hwids_field \<Rightarrow> license option \<Rightarrow> outcome" where
  "validate_outcome c hw s b l =
     (if api_off s then API_DISABLED
      else case b of
             NotAnArray \<Rightarrow> ERROR
           | HwidArray xs \<Rightarrow>
               if hw \<in> set xs then BANNED
               else case l of
                      None \<Rightarrow> INVALID_LICENSE
                    | Some lic \<Rightarrow>
                        if isLicenseExpired lic (t_expiry c) then EXPIRED
                        else if hwid lic = hw then VALID
                        else HWID_MISMATCH)"

definition register_outcome ::
  "clock \<Rightarrow> string \<Rightarrow> string \<Rightarrow> settings \<Rightarrow> hwids_field \<Rightarrow> license option \<Rightarrow>
   (string \<times> license) list \<Rightarrow> outcome" where
  "register_outcome c lk hw s b l ds =
     (if api_off s then API_DISABLED
      else case b of
             NotAnArray \<Rightarrow> ERROR
           | HwidArray xs \<Rightarrow>
               if hw \<in> set xs then BANNED
               else case l of
                      None \<Rightarrow> INVALID_LICENSE
                    | Some lic \<Rightarrow>
                        if isLicenseExpired lic (t_expiry c) then EXPIRED
                        else if hwid lic \<noteq> [] \<and> hwid lic \<noteq> hw then ALREADY_REGISTERED
                        else if hwid_used_elsewhere ds hw lk then HWID_IN_USE
                        else SUCCESS)"

text \<open>No two documents with different ids are bound to the same hwid.\<close>

definition hwid_unique :: "(string \<times> license) list \<Rightarrow> bool" where
  "hwid_unique ds =
     (\<forall>(k, d) \<in> set ds. \<forall>(k', d') \<in> set ds. hwid d \<noteq> [] \<and> hwid d = hwid d' \<longrightarrow> k = k')"

text \<open>A fresh record as \<^verbatim>\<open>/admin/generate-license\<close> writes it, and a small store.\<close>

definition ex_license :: "int option \<Rightarrow> license" where
  "ex_license e =
     \<lparr>hwid = [], activatedAt = Blank, expiry = e, history = [], createdAt = 0,
      createdBy = Some ''admin'', batchId = None, lastValidated = None, activationIP = None,
      deviceInfo = None\<rparr>"

definition ex_world :: world where
  "ex_world =
     \<lparr>licenses = [(''LIC-A'', ex_license None), (''LIC-B'', ex_license (Some 1000))],
      banlist_doc = Some (HwidArray [''H9'']), settings_doc = None,
      activityLog = [], calls = []\<rparr>"

definition ex_request :: "string \<Rightarrow> string \<Rightarrow> request" where
  "ex_request k h =
     \<lparr>query_license = Some k, query_hwid = Some h, req_ip = ''10.0.0.1'',
      req_userAgent = None\<rparr>"

definition ex_clock :: "int \<Rightarrow> clock" where
  "ex_clock t = \<lparr>t_log = t, t_expiry = t, t_activated = t, t_validated = t, t_history = t\<rparr>"

text \<open>The faults under which exactly one Firestore operation rejects.\<close>

definition only_down :: "db_call \<Rightarrow> faults" where
  "only_down x = (\<lambda>y. y = x)"

text \<open>The example store with the API switched off.\<close>

definition ex_world_disabled :: world where
  "ex_world_disabled =
     ex_world\<lparr>settings_doc := Some (default_settings\<lparr>apiEnabled := Some False\<rparr>)\<rparr>"

text \<open>The example store with a ban list document whose \<^verbatim>\<open>hwids\<close> is not an array.\<close>

definition ex_world_malformed :: world where
  "ex_world_malformed = ex_world\<lparr>banlist_doc := Some NotAnArray\<rparr>"

text \<open>A store whose one license is bound, and an admin request for one bulk key.\<close>

definition ex_store :: world where
  "ex_store =
     \<lparr>licenses = [(''LIC-00000000-00000000'',
                     (ex_license None)\<lparr>hwid := ''H1'', activatedAt := Iso 3\<rparr>)],
      banlist_doc = None, settings_doc = None, activityLog = [], calls = []\<rparr>"

definition ex_envs :: "nat \<Rightarrow> gen_env" where
  "ex_envs i = \<lparr>rnd1 = (0, 0, 0, 0), rnd2 = (0, 0, 0, 0), g_created = 7, g_batch = 7\<rparr>"

definition ex_admin_request :: admin_request where
  "ex_admin_request =
     \<lparr>session_user = Some ''admin'', body_license = None, body_expiry = NoDate,
      body_count = Some 1, body_prefix = None, body_hwid = None, body_reason = None,
      adm_ip = ''10.0.0.2'', adm_userAgent = None\<rparr>"

text \<open>An admin request to ban one hwid.\<close>

definition ex_ban_request :: "string \<Rightarrow> admin_request" where
  "ex_ban_request h =
     \<lparr>session_user = Some ''admin'', body_license = None, body_expiry = NoDate,
      body_count = None, body_prefix = None, body_hwid = Some h, body_reason = None,
      adm_ip = ''10.0.0.2'', adm_userAgent = None\<rparr>"

section \<open>Lemmas about the helpers\<close>

lemma no_faults_apply [simp]: "\<not> no_faults x"
  by (simp add: no_faults_def)

lemma issue_fields [simp]:
  "licenses (issue x w) = licenses w"
  "banlist_doc (issue x w) = banlist_doc w"
  "settings_doc (issue x w) = settings_doc w"
  "activityLog (issue x w) = activityLog w"
  "calls (issue x w) = calls w @ [x]"
  by (simp_all add: issue_def)

lemma logActivity_fields [simp]:
  "licenses (logActivity dn t a d i u w) = licenses w"
  "banlist_doc (logActivity dn t a d i u w) = banlist_doc w"
  "settings_doc (logActivity dn t a d i u w) = settings_doc w"
  "calls (logActivity dn t a d i u w) = calls w @ [ActivityAdd]"
  by (simp_all add: logActivity_def)

lemma seen_issue [simp]:
  "seen_settings dn (issue x w) = seen_settings dn w"
  "seen_banlist dn (issue x w) = seen_banlist dn w"
  "seen_license dn k (issue x w) = seen_license dn k w"
  "seen_licenses dn (issue x w) = seen_licenses dn w"
  by (simp_all add: seen_settings_def seen_banlist_def seen_license_def seen_licenses_def
        settings_of_def)

lemma seen_logActivity [simp]:
  "seen_settings dn (logActivity dn' t a d i u w) = seen_settings dn w"
  "seen_banlist dn (logActivity dn' t a d i u w) = seen_banlist dn w"
  "seen_license dn k (logActivity dn' t a d i u w) = seen_license dn k w"
  "seen_licenses dn (logActivity dn' t a d i u w) = seen_licenses dn w"
  by (simp_all add: seen_settings_def seen_banlist_def seen_license_def seen_licenses_def
        settings_of_def)

lemma getSettings_eq: "getSettings dn w = (seen_settings dn w, issue SettingsGet w)"
  by (simp add: getSettings_def seen_settings_def settings_of_def split: option.splits)

lemma getBanlist_eq: "getBanlist dn w = (seen_banlist dn w, issue BanlistGet w)"
  by (simp add: getBanlist_def seen_banlist_def split: option.splits)

lemma getLicense_eq: "getLicense dn k w = (seen_license dn k w, issue (LicenseGet k) w)"
  by (simp add: getLicense_def seen_license_def)

lemma getLicenses_eq: "getLicenses dn w = (seen_licenses dn w, issue LicensesGetAll w)"
  by (simp add: getLicenses_def seen_licenses_def)

lemmas read_eqs = getSettings_eq getBanlist_eq getLicense_eq getLicenses_eq

lemma saveLicense_fields [simp]:
  "licenses (snd (saveLicense dn k data w)) =
     (if dn (LicenseSet k) then licenses w else set_doc k data (licenses w))"
  "banlist_doc (snd (saveLicense dn k data w)) = banlist_doc w"
  "settings_doc (snd (saveLicense dn k data w)) = settings_doc w"
  by (simp_all add: saveLicense_def)

lemma seen_no_faults [simp]:
  "seen_settings no_faults w = settings_of w"
  "seen_license no_faults k w = map_of (licenses w) k"
  "seen_licenses no_faults w = licenses w"
  by (simp_all add: seen_settings_def seen_license_def seen_licenses_def)

lemma seen_banlist_array:
  "banlist_doc w \<noteq> Some NotAnArray \<Longrightarrow> seen_banlist no_faults w = HwidArray (banned_hwids w)"
  by (simp add: seen_banlist_def banned_hwids_def split: option.splits hwids_field.splits)

section \<open>Lemmas about the two API handlers\<close>

lemma api_validate_nonempty:
  "query_license r = Some lk \<Longrightarrow> lk \<noteq> [] \<Longrightarrow> query_hwid r = Some hw \<Longrightarrow> hw \<noteq> [] \<Longrightarrow>
   api_validate dn c r w = catch_error (validate_body dn c r lk hw w)"
  by (simp add: api_validate_def truthy_def)

lemma api_register_nonempty:
  "query_license r = Some lk \<Longrightarrow> lk \<noteq> [] \<Longrightarrow> query_hwid r = Some hw \<Longrightarrow> hw \<noteq> [] \<Longrightarrow>
   api_register dn c r w = catch_error (register_body dn c r lk hw w)"
  by (simp add: api_register_def truthy_def)

lemma validate_body_fst:
  "fst (catch_error (validate_body dn c r lk hw w)) =
     validate_outcome c hw (seen_settings dn w) (seen_banlist dn w) (seen_license dn lk w)"
  by (cases "seen_license dn lk w"; cases "seen_banlist dn w")
     (simp_all add: validate_body_def validate_outcome_def catch_error_def isHWIDBanned_def
        read_eqs Let_def split: bool.splits)

lemma register_body_fst:
  "fst (catch_error (register_body dn c r lk hw w)) =
     register_outcome c lk hw (seen_settings dn w) (seen_banlist dn w) (seen_license dn lk w)
       (seen_licenses dn w)"
  by (cases "seen_license dn lk w"; cases "seen_banlist dn w")
     (simp_all add: register_body_def register_outcome_def catch_error_def isHWIDBanned_def
        read_eqs Let_def split: bool.splits)

lemma validate_body_licenses:
  "licenses (snd (catch_error (validate_body dn c r lk hw w))) =
     (case seen_license dn lk w of
        Some lic \<Rightarrow>
          if validate_outcome c hw (seen_settings dn w) (seen_banlist dn w) (Some lic) = VALID
             \<and> \<not> dn (LicenseSet lk)
          then set_doc lk (lic\<lparr>lastValidated := Some (t_validated c)\<rparr>) (licenses w)
          else licenses w
      | None \<Rightarrow> licenses w)"
  by (cases "seen_license dn lk w"; cases "seen_banlist dn w")
     (simp_all add: validate_body_def validate_outcome_def catch_error_def isHWIDBanned_def
        read_eqs Let_def split: bool.splits)

lemma register_body_licenses:
  "licenses (snd (catch_error (register_body dn c r lk hw w))) =
     (case seen_license dn lk w of
        Some lic \<Rightarrow>
          if register_outcome c lk hw (seen_settings dn w) (seen_banlist dn w) (Some lic)
               (seen_licenses dn w) = SUCCESS \<and> \<not> dn (LicenseSet lk)
          then set_doc lk (updatedLic c r hw lic) (licenses w)
          else licenses w
      | None \<Rightarrow> licenses w)"
  by (cases "seen_license dn lk w"; cases "seen_banlist dn w")
     (simp_all add: register_body_def register_outcome_def catch_error_def isHWIDBanned_def
        read_eqs Let_def split: bool.splits)

lemma register_body_docs:
  "settings_doc (snd (catch_error (register_body dn c r lk hw w))) = settings_doc w"
  "banlist_doc (snd (catch_error (register_body dn c r lk hw w))) = banlist_doc w"
  by (simp_all add: register_body_def catch_error_def isHWIDBanned_def read_eqs Let_def
      split: option.splits hwids_field.splits bool.splits)

text \<open>A write keeps the document ids unique.\<close>

lemma set_doc_keys:
  "map fst (set_doc k data ds) = (if k \<in> fst ` set ds then map fst ds else map fst ds @ [k])"
  by (induction ds) (auto split: if_splits)

lemma set_doc_distinct:
  "distinct (map fst ds) \<Longrightarrow> distinct (map fst (set_doc k data ds))"
  by (simp add: set_doc_keys)

lemma map_of_set_doc:
  "map_of (set_doc k data ds) k' =
     (if k' = k then Some (case map_of ds k of None \<Rightarrow> data | Some old \<Rightarrow> merge_license old data)
      else map_of ds k')"
  by (induction ds) auto

lemma merge_lastValidated:
  "merge_license lic (lic\<lparr>lastValidated := Some t\<rparr>) = lic\<lparr>lastValidated := Some t\<rparr>"
  by (cases lic) (simp add: merge_license_def split: option.splits)

lemma merge_updatedLic:
  "merge_license lic (updatedLic c r hw lic) = updatedLic c r hw lic"
  by (cases lic) (simp add: merge_license_def updatedLic_def split: option.splits)

lemma hwid_used_elsewhere_iff:
  "hwid_used_elsewhere ds hw lk \<longleftrightarrow> (\<exists>(k, d) \<in> set ds. hwid d = hw \<and> k \<noteq> lk)"
  by (induction ds) auto

lemma hwid_merge [simp]: "hwid (merge_license old new) = hwid new"
  by (simp add: merge_license_def)

lemma set_doc_same_hwid:
  "map_of ds k = Some lic \<Longrightarrow> hwid data = hwid lic \<Longrightarrow>
   map (\<lambda>(k, d). (k, hwid d)) (set_doc k data ds) = map (\<lambda>(k, d). (k, hwid d)) ds"
  by (induction ds) (auto split: if_splits)

lemma validate_keeps_bindings:
  "map (\<lambda>(k, d). (k, hwid d)) (licenses (snd (api_validate dn c r w))) =
   map (\<lambda>(k, d). (k, hwid d)) (licenses w)"
proof (cases "truthy (query_license r) \<and> truthy (query_hwid r)")
  case False
  then show ?thesis by (auto simp: api_validate_def)
next
  case True
  then obtain lk hw where q: "query_license r = Some lk" "lk \<noteq> []" "query_hwid r = Some hw" "hw \<noteq> []"
    by (auto simp: truthy_def split: option.splits)
  show ?thesis
  proof (cases "seen_license dn lk w")
    case None
    then show ?thesis by (simp add: api_validate_nonempty [OF q] validate_body_licenses)
  next
    case (Some lic)
    then have m: "map_of (licenses w) lk = Some lic"
      by (simp add: seen_license_def split: if_splits)
    have "validate_outcome c hw (seen_settings dn w) (seen_banlist dn w) (Some lic) = VALID
          \<Longrightarrow> hwid lic = hw"
      by (simp add: validate_outcome_def split: if_splits hwids_field.splits)
    with Some m show ?thesis
      by (simp add: api_validate_nonempty [OF q] validate_body_licenses set_doc_same_hwid)
  qed
qed

lemma set_doc_member:
  "map_of ds k = Some old \<Longrightarrow> (k, merge_license old data) \<in> set (set_doc k data ds)"
  by (induction ds) (auto split: if_splits)

lemma set_doc_subset:
  "(a, d) \<in> set (set_doc k data ds) \<Longrightarrow> (a, d) \<in> set ds \<or> (a = k \<and> hwid d = hwid data)"
  by (induction ds) (auto split: if_splits)

lemma set_doc_unique:
  assumes "hwid_unique ds" and "\<not> hwid_used_elsewhere ds (hwid data) k"
  shows "hwid_unique (set_doc k data ds)"
  unfolding hwid_unique_def
proof (clarify)
  fix a d a' d'
  assume 1: "(a, d) \<in> set (set_doc k data ds)" and 2: "(a', d') \<in> set (set_doc k data ds)"
    and ne: "hwid d \<noteq> []" and eq: "hwid d = hwid d'"
  from set_doc_subset [OF 1] set_doc_subset [OF 2]
  consider "(a, d) \<in> set ds" "(a', d') \<in> set ds"
    | "(a, d) \<in> set ds" "a' = k" "hwid d' = hwid data"
    | "a = k" "hwid d = hwid data" "(a', d') \<in> set ds"
    | "a = k" "a' = k"
    by blast
  then show "a = a'"
  proof cases
    case 1
    with assms(1) ne eq show ?thesis unfolding hwid_unique_def by blast
  next
    case 2
    with assms(2) eq show ?thesis by (auto simp: hwid_used_elsewhere_iff)
  next
    case 3
    with assms(2) eq show ?thesis by (auto simp: hwid_used_elsewhere_iff)
  next
    case 4
    then show ?thesis by simp
  qed
qed

lemma register_keeps_unique:
  assumes "hwid_unique (licenses w)"
  shows "hwid_unique (licenses (snd (api_register no_faults c r w)))"
proof (cases "truthy (query_license r) \<and> truthy (query_hwid r)")
  case False
  with assms show ?thesis by (auto simp: api_register_def)
next
  case True
  then obtain lk hw where q: "query_license r = Some lk" "lk \<noteq> []" "query_hwid r = Some hw" "hw \<noteq> []"
    by (auto simp: truthy_def split: option.splits)
  show ?thesis
  proof (cases "map_of (licenses w) lk")
    case None
    with assms show ?thesis by (simp add: api_register_nonempty [OF q] register_body_licenses)
  next
    case (Some lic)
    have "register_outcome c lk hw (settings_of w) (seen_banlist no_faults w) (Some lic) (licenses w) = SUCCESS
          \<Longrightarrow> \<not> hwid_used_elsewhere (licenses w) (hwid (updatedLic c r hw lic)) lk"
      by (simp add: register_outcome_def updatedLic_def split: if_splits hwids_field.splits)
    with Some assms show ?thesis
      by (simp add: api_register_nonempty [OF q] register_body_licenses set_doc_unique)
  qed
qed

lemma register_fst_gated:
  assumes "query_license r = Some lk" "lk \<noteq> []" "query_hwid r = Some hw" "hw \<noteq> []"
    and "apiEnabled (settings_of w) = Some True"
    and "banlist_doc w \<noteq> Some NotAnArray" and "hw \<notin> set (banned_hwids w)"
    and "map_of (licenses w) lk = Some lic"
    and "\<not> isLicenseExpired lic (t_expiry c)"
  shows "fst (api_register no_faults c r w) =
     (if hwid lic \<noteq> [] \<and> hwid lic \<noteq> hw then ALREADY_REGISTERED
      else if hwid_used_elsewhere (licenses w) hw lk then HWID_IN_USE
      else SUCCESS)"
  using assms(5-9)
  by (simp add: api_register_nonempty [OF assms(1-4)] register_body_fst seen_banlist_array
        register_outcome_def api_off_def)

lemma register_licenses_gated:
  assumes "query_license r = Some lk" "lk \<noteq> []" "query_hwid r = Some hw" "hw \<noteq> []"
    and "map_of (licenses w) lk = Some lic"
  shows "licenses (snd (api_register no_faults c r w)) =
      (if fst (api_register no_faults c r w) = SUCCESS
       then set_doc lk (updatedLic c r hw lic) (licenses w) else licenses w)"
  using assms(5)
  by (simp add: api_register_nonempty [OF assms(1-4)] register_body_fst register_body_licenses)

lemma used_elsewhereI:
  "(k, d) \<in> set ds \<Longrightarrow> hwid d = hw \<Longrightarrow> k \<noteq> lk \<Longrightarrow> hwid_used_elsewhere ds hw lk"
  by (induction ds) auto

lemma register_success_facts:
  assumes q: "query_license r = Some lk" "lk \<noteq> []" "query_hwid r = Some hw" "hw \<noteq> []"
    and s: "fst (api_register no_faults c r w) = SUCCESS"
  shows "apiEnabled (settings_of w) = Some True"
    and "\<exists>xs. banlist_doc w \<noteq> Some NotAnArray \<and> hw \<notin> set (banned_hwids w)"
    and "\<exists>lic. map_of (licenses w) lk = Some lic \<and> (hwid lic = [] \<or> hwid lic = hw)
           \<and> licenses (snd (api_register no_faults c r w)) =
               set_doc lk (updatedLic c r hw lic) (licenses w)"
    and "\<not> hwid_used_elsewhere (licenses w) hw lk"
proof -
  from s have o: "register_outcome c lk hw (settings_of w) (seen_banlist no_faults w)
      (map_of (licenses w) lk) (licenses w) = SUCCESS"
    by (simp add: api_register_nonempty [OF q] register_body_fst)
  then show "apiEnabled (settings_of w) = Some True"
    by (simp add: register_outcome_def api_off_def split: if_splits)
  from o have b: "banlist_doc w \<noteq> Some NotAnArray"
    by (auto simp: register_outcome_def seen_banlist_def split: if_splits)
  with o show "\<exists>xs. banlist_doc w \<noteq> Some NotAnArray \<and> hw \<notin> set (banned_hwids w)"
    by (simp add: seen_banlist_array register_outcome_def split: if_splits)
  from o b show "\<not> hwid_used_elsewhere (licenses w) hw lk"
    by (simp add: seen_banlist_array register_outcome_def split: if_splits option.splits)
  from o b obtain lic where l: "map_of (licenses w) lk = Some lic"
    by (cases "map_of (licenses w) lk")
       (simp_all add: seen_banlist_array register_outcome_def split: if_splits)
  with o b have "hwid lic = [] \<or> hwid lic = hw"
    by (simp add: seen_banlist_array register_outcome_def split: if_splits)
  moreover from o l have "licenses (snd (api_register no_faults c r w)) =
               set_doc lk (updatedLic c r hw lic) (licenses w)"
    by (simp add: api_register_nonempty [OF q] register_body_licenses)
  ultimately show "\<exists>lic. map_of (licenses w) lk = Some lic \<and> (hwid lic = [] \<or> hwid lic = hw)
           \<and> licenses (snd (api_register no_faults c r w)) =
               set_doc lk (updatedLic c r hw lic) (licenses w)"
    using l by blast
qed

lemma api_register_docs:
  "settings_doc (snd (api_register dn c r w)) = settings_doc w"
  "banlist_doc (snd (api_register dn c r w)) = banlist_doc w"
  by (auto simp: api_register_def register_body_docs split: option.splits)

lemma api_register_views:
  "settings_of (snd (api_register dn c r w)) = settings_of w"
  "banned_hwids (snd (api_register dn c r w)) = banned_hwids w"
  by (simp_all add: settings_of_def banned_hwids_def api_register_docs)

lemmas run_defs = validate_body_fst register_body_fst
  validate_outcome_def register_outcome_def seen_settings_def seen_banlist_def seen_license_def
  seen_licenses_def empty_settings_def

lemma used_elsewhere_set_doc:
  "hwid_used_elsewhere (set_doc k data ds) hw k = hwid_used_elsewhere ds hw k"
  by (induction ds) (auto split: if_splits)

section \<open>Lemmas about the admin actions\<close>

lemma ex_key: "generateSecureLicenseKey ''LIC'' (0, 0, 0, 0) (0, 0, 0, 0) = ''LIC-00000000-00000000''"
  by (simp add: generateSecureLicenseKey_def toHexUpper_def hex_byte_def hex_digit_def)

lemma generate_license_rejects_duplicate:
  assumes "session_user r = Some admin_username"
    and "body_license r = Some lk" "lk \<noteq> []"
    and "map_of (licenses w) lk = Some lic" and "\<not> dn (LicenseGet lk)"
  shows "fst (post_generate_license admin_username dn toISOString e t r w)
           = Alert ''License already exists!''
       \<and> licenses (snd (post_generate_license admin_username dn toISOString e t r w)) = licenses w"
  using assms
  by (simp add: post_generate_license_def requireLogin_def generate_license_def getLicense_eq
        seen_license_def)

lemma saveBanlist_fields [simp]:
  "banlist_doc (snd (saveBanlist dn xs w)) =
     (if dn BanlistSet then banlist_doc w else Some (HwidArray xs))"
  by (simp add: saveBanlist_def)

lemma ban_hwid_banlist:
  assumes "body_hwid r = Some hw" and "banlist_doc w \<noteq> Some NotAnArray"
  shows "banned_hwids (snd (ban_hwid no_faults t r w)) =
           (if trim hw = [] \<or> trim hw \<in> set (banned_hwids w) then banned_hwids w
            else banned_hwids w @ [trim hw])"
  using assms
  by (cases "banlist_doc w")
     (auto simp: ban_hwid_def getBanlist_eq seen_banlist_def banned_hwids_def Let_def trim_def
        split: hwids_field.splits)

section \<open>Expiration policy\<close>

text \<open>
  C8. A record with no expiry is never expired; a record is not expired at the instant of
  its expiry; and it is expired exactly when the current time is strictly later than the
  expiry.
\<close>

theorem isLicenseExpired_strict:
  "(expiry lic = None \<longrightarrow> \<not> isLicenseExpired lic now) \<and>
   (expiry lic = Some now \<longrightarrow> \<not> isLicenseExpired lic now) \<and>
   (expiry lic = Some e \<longrightarrow> (isLicenseExpired lic now \<longleftrightarrow> now > e))"
  by (simp add: isLicenseExpired_def)

theorem isLicenseExpired_strict_witness:
  "expiry (ex_license (Some 1000)) = Some 1000 \<and>
   \<not> isLicenseExpired (ex_license (Some 1000)) 1000 \<and>
   isLicenseExpired (ex_license (Some 1000)) 1001 \<and>
   expiry (ex_license None) = None \<and>
   \<not> isLicenseExpired (ex_license None) 1001"
  using isLicenseExpired_strict [of "ex_license (Some 1000)" 1000 1000]
    isLicenseExpired_strict [of "ex_license (Some 1000)" 1001 1000]
    isLicenseExpired_strict [of "ex_license None" 1001 0]
  by (simp add: ex_license_def)

section \<open>Missing input\<close>

text \<open>
  C9. When the license key or the hwid of a validate or register request is missing or
  empty, the answer is FAILED and the store is left exactly as it was: no Firestore
  operation is issued and no activity is logged.
\<close>

theorem missing_input_failed:
  assumes "\<not> truthy (query_license r) \<or> \<not> truthy (query_hwid r)"
  shows "api_validate dn c r w = (FAILED, w) \<and> api_register dn c r w = (FAILED, w)"
  using assms by (auto simp: api_validate_def api_register_def)

theorem missing_input_failed_witness:
  "\<not> truthy (query_hwid (ex_request ''LIC-A'' [])) \<and>
   api_validate no_faults (ex_clock 5) (ex_request ''LIC-A'' []) ex_world = (FAILED, ex_world) \<and>
   api_register no_faults (ex_clock 5) (ex_request ''LIC-A'' []) ex_world = (FAILED, ex_world)"
  using missing_input_failed [of "ex_request ''LIC-A'' []" no_faults "ex_clock 5" ex_world]
  by (simp add: ex_request_def truthy_def)

section \<open>The decision order of validate\<close>

text \<open>
  C1. For a validate request with non-empty key and hwid, answered without store faults
  from a well-formed ban list, the outcome is decided in this order, first match winning:
  API_DISABLED when the apiEnabled flag of the settings in force is not true; else BANNED
  when the hwid is in the ban list; else INVALID_LICENSE when there is no record for the
  key; else EXPIRED when the record is expired; else VALID when the record's hwid equals
  the candidate; otherwise HWID_MISMATCH (so an unbound record, whose hwid is empty, gives
  HWID_MISMATCH). On VALID the stored record is the old one with lastValidated set to the
  current time. Whatever the outcome, every record keeps the hwid it had: validate never binds.
\<close>

theorem validate_decision_order:
  assumes "query_license r = Some lk" "lk \<noteq> []" "query_hwid r = Some hw" "hw \<noteq> []"
    and "banlist_doc w \<noteq> Some NotAnArray"
  shows "fst (api_validate no_faults c r w) =
     (if apiEnabled (settings_of w) \<noteq> Some True then API_DISABLED
      else if hw \<in> set (banned_hwids w) then BANNED
      else case map_of (licenses w) lk of
             None \<Rightarrow> INVALID_LICENSE
           | Some lic \<Rightarrow>
               if isLicenseExpired lic (t_expiry c) then EXPIRED
               else if hwid lic = hw then VALID
               else HWID_MISMATCH)
   \<and> (\<forall>lic. fst (api_validate no_faults c r w) = VALID \<and> map_of (licenses w) lk = Some lic \<longrightarrow>
         map_of (licenses (snd (api_validate no_faults c r w))) lk =
           Some (lic\<lparr>lastValidated := Some (t_validated c)\<rparr>))
   \<and> map (\<lambda>(k, d). (k, hwid d)) (licenses (snd (api_validate no_faults c r w))) =
       map (\<lambda>(k, d). (k, hwid d)) (licenses w)"
proof (intro conjI allI impI)
  show o: "fst (api_validate no_faults c r w) =
     (if apiEnabled (settings_of w) \<noteq> Some True then API_DISABLED
      else if hw \<in> set (banned_hwids w) then BANNED
      else case map_of (licenses w) lk of
             None \<Rightarrow> INVALID_LICENSE
           | Some lic \<Rightarrow>
               if isLicenseExpired lic (t_expiry c) then EXPIRED
               else if hwid lic = hw then VALID
               else HWID_MISMATCH)"
    using assms(5)
    by (simp add: api_validate_nonempty [OF assms(1-4)] validate_body_fst validate_outcome_def
          seen_banlist_array api_off_def)
  show "map (\<lambda>(k, d). (k, hwid d)) (licenses (snd (api_validate no_faults c r w))) =
       map (\<lambda>(k, d). (k, hwid d)) (licenses w)"
    by (rule validate_keeps_bindings)
  fix lic
  assume a: "fst (api_validate no_faults c r w) = VALID \<and> map_of (licenses w) lk = Some lic"
  then have "validate_outcome c hw (settings_of w) (seen_banlist no_faults w) (Some lic) = VALID"
    by (auto simp: api_validate_nonempty [OF assms(1-4)] validate_body_fst)
  with a show "map_of (licenses (snd (api_validate no_faults c r w))) lk =
           Some (lic\<lparr>lastValidated := Some (t_validated c)\<rparr>)"
    by (simp add: api_validate_nonempty [OF assms(1-4)] validate_body_licenses map_of_set_doc
          merge_lastValidated)
qed

theorem validate_decision_order_witness:
  "query_license (ex_request ''LIC-A'' ''H1'') = Some ''LIC-A'' \<and> ''LIC-A'' \<noteq> [] \<and>
   query_hwid (ex_request ''LIC-A'' ''H1'') = Some ''H1'' \<and> ''H1'' \<noteq> [] \<and>
   banlist_doc ex_world \<noteq> Some NotAnArray \<and>
   fst (api_validate no_faults (ex_clock 5) (ex_request ''LIC-A'' ''H1'') ex_world) = HWID_MISMATCH"
  using validate_decision_order [of "ex_request ''LIC-A'' ''H1''" "''LIC-A''" "''H1''" ex_world "ex_clock 5"]
  by (simp add: ex_request_def ex_world_def ex_license_def ex_clock_def settings_of_def
        default_settings_def banned_hwids_def isLicenseExpired_def)

section \<open>The decision of register\<close>

text \<open>
  C2. For a register request with non-empty key and hwid that passes the API-disabled,
  banned, missing-record and expired gates: the outcome is ALREADY_REGISTERED when the
  record has a different non-empty hwid; else HWID_IN_USE when a record with another key
  has this hwid; otherwise SUCCESS, and then the stored record is the old one with hwid
  bound, activatedAt and lastValidated set to the current time, activationIP and deviceInfo
  recorded and a REGISTER entry appended to history.
\<close>

theorem register_decision:
  assumes "query_license r = Some lk" "lk \<noteq> []" "query_hwid r = Some hw" "hw \<noteq> []"
    and "apiEnabled (settings_of w) = Some True"
    and "banlist_doc w \<noteq> Some NotAnArray" and "hw \<notin> set (banned_hwids w)"
    and "map_of (licenses w) lk = Some lic"
    and "\<not> isLicenseExpired lic (t_expiry c)"
  shows "fst (api_register no_faults c r w) =
     (if hwid lic \<noteq> [] \<and> hwid lic \<noteq> hw then ALREADY_REGISTERED
      else if (\<exists>(k, d) \<in> set (licenses w). hwid d = hw \<and> k \<noteq> lk) then HWID_IN_USE
      else SUCCESS)
   \<and> (fst (api_register no_faults c r w) = SUCCESS \<longrightarrow>
        map_of (licenses (snd (api_register no_faults c r w))) lk =
          Some (lic\<lparr>hwid := hw,
                    activatedAt := Iso (t_activated c),
                    lastValidated := Some (t_validated c),
                    activationIP := Some (req_ip r),
                    deviceInfo := Some (case req_userAgent r of
                                          None \<Rightarrow> ''Unknown''
                                        | Some u \<Rightarrow> if u = [] then ''Unknown'' else u),
                    history := history lic @
                      [\<lparr>action = ''REGISTER'', date = t_history c, details = Some hw,
                        ip = Some (req_ip r), admin = None\<rparr>]\<rparr>))"
proof -
  note l = register_licenses_gated [OF assms(1-4) assms(8)]
  have u: "updatedLic c r hw lic =
          lic\<lparr>hwid := hw,
                    activatedAt := Iso (t_activated c),
                    lastValidated := Some (t_validated c),
                    activationIP := Some (req_ip r),
                    deviceInfo := Some (case req_userAgent r of
                                          None \<Rightarrow> ''Unknown''
                                        | Some u \<Rightarrow> if u = [] then ''Unknown'' else u),
                    history := history lic @
                      [\<lparr>action = ''REGISTER'', date = t_history c, details = Some hw,
                        ip = Some (req_ip r), admin = None\<rparr>]\<rparr>"
    by (simp add: updatedLic_def register_entry_def)
  have 1: "fst (api_register no_faults c r w) =
     (if hwid lic \<noteq> [] \<and> hwid lic \<noteq> hw then ALREADY_REGISTERED
      else if (\<exists>(k, d) \<in> set (licenses w). hwid d = hw \<and> k \<noteq> lk) then HWID_IN_USE
      else SUCCESS)"
    using register_fst_gated [OF assms] by (simp add: hwid_used_elsewhere_iff)
  have 2: "fst (api_register no_faults c r w) = SUCCESS \<longrightarrow>
        map_of (licenses (snd (api_register no_faults c r w))) lk = Some (updatedLic c r hw lic)"
    using assms(8) by (simp add: l map_of_set_doc merge_updatedLic)
  from 1 2 show ?thesis unfolding u by blast
qed

theorem register_decision_witness:
  "query_license (ex_request ''LIC-B'' ''H1'') = Some ''LIC-B'' \<and> ''LIC-B'' \<noteq> [] \<and>
   query_hwid (ex_request ''LIC-B'' ''H1'') = Some ''H1'' \<and> ''H1'' \<noteq> [] \<and>
   apiEnabled (settings_of ex_world) = Some True \<and>
   banlist_doc ex_world \<noteq> Some NotAnArray \<and> ''H1'' \<notin> set (banned_hwids ex_world) \<and>
   map_of (licenses ex_world) ''LIC-B'' = Some (ex_license (Some 1000)) \<and>
   \<not> isLicenseExpired (ex_license (Some 1000)) (t_expiry (ex_clock 5)) \<and>
   fst (api_register no_faults (ex_clock 5) (ex_request ''LIC-B'' ''H1'') ex_world) = SUCCESS \<and>
   map_option hwid
     (map_of (licenses (snd (api_register no_faults (ex_clock 5) (ex_request ''LIC-B'' ''H1'')
        ex_world))) ''LIC-B'') = Some ''H1''"
  using register_decision [of "ex_request ''LIC-B'' ''H1''" "''LIC-B''" "''H1''" ex_world
      "ex_license (Some 1000)" "ex_clock 5"]
  by (simp add: ex_request_def ex_world_def ex_license_def ex_clock_def settings_of_def
        default_settings_def banned_hwids_def isLicenseExpired_def)

section \<open>Global uniqueness of a bound hwid\<close>

text \<open>
  C3. After register(k1, h) has succeeded, register(k2, h) for another existing, unbound,
  unexpired license k2 answers HWID_IN_USE; and a successful or failed register keeps the
  property that no two records with different keys are bound to the same hwid.
\<close>

theorem hwid_global_uniqueness:
  assumes "query_license r1 = Some k1" "k1 \<noteq> []" "query_hwid r1 = Some h" "h \<noteq> []"
    and "query_license r2 = Some k2" "k2 \<noteq> []" "query_hwid r2 = Some h"
    and "k2 \<noteq> k1"
    and "fst (api_register no_faults c1 r1 w) = SUCCESS"
    and "map_of (licenses w) k2 = Some lic2" and "hwid lic2 = []"
    and "\<not> isLicenseExpired lic2 (t_expiry c2)"
  shows "fst (api_register no_faults c2 r2 (snd (api_register no_faults c1 r1 w))) = HWID_IN_USE
    \<and> (hwid_unique (licenses w) \<longrightarrow>
         hwid_unique (licenses (snd (api_register no_faults c1 r1 w))))"
proof
  let ?w1 = "snd (api_register no_faults c1 r1 w)"
  note f = register_success_facts [OF assms(1-4) assms(9)]
  from f(3) obtain lic1 where l1: "map_of (licenses w) k1 = Some lic1"
    and w1: "licenses ?w1 = set_doc k1 (updatedLic c1 r1 h lic1) (licenses w)"
    by blast
  have "(k1, merge_license lic1 (updatedLic c1 r1 h lic1)) \<in> set (licenses ?w1)"
    unfolding w1 using l1 by (rule set_doc_member)
  then have used: "hwid_used_elsewhere (licenses ?w1) h k2"
    using assms(8) by (auto intro: used_elsewhereI simp: updatedLic_def)
  have m2: "map_of (licenses ?w1) k2 = Some lic2"
    using assms(8,10) by (simp add: w1 map_of_set_doc)
  from f(2) have b: "banlist_doc ?w1 \<noteq> Some NotAnArray" "h \<notin> set (banned_hwids ?w1)"
    by (simp_all add: api_register_docs api_register_views)
  from f(1) have e: "apiEnabled (settings_of ?w1) = Some True"
    by (simp add: api_register_views)
  from register_fst_gated [OF assms(5,6,7) assms(4) e b m2 assms(12)] used assms(4,11)
  show "fst (api_register no_faults c2 r2 ?w1) = HWID_IN_USE"
    by simp
  show "hwid_unique (licenses w) \<longrightarrow> hwid_unique (licenses ?w1)"
    by (simp add: register_keeps_unique)
qed

theorem hwid_global_uniqueness_witness:
  "query_license (ex_request ''LIC-A'' ''H1'') = Some ''LIC-A'' \<and> ''LIC-A'' \<noteq> [] \<and>
   query_hwid (ex_request ''LIC-A'' ''H1'') = Some ''H1'' \<and> ''H1'' \<noteq> [] \<and>
   query_license (ex_request ''LIC-B'' ''H1'') = Some ''LIC-B'' \<and> ''LIC-B'' \<noteq> [] \<and>
   query_hwid (ex_request ''LIC-B'' ''H1'') = Some ''H1'' \<and> ''LIC-B'' \<noteq> ''LIC-A'' \<and>
   fst (api_register no_faults (ex_clock 5) (ex_request ''LIC-A'' ''H1'') ex_world) = SUCCESS \<and>
   map_of (licenses ex_world) ''LIC-B'' = Some (ex_license (Some 1000)) \<and>
   hwid (ex_license (Some 1000)) = [] \<and>
   \<not> isLicenseExpired (ex_license (Some 1000)) (t_expiry (ex_clock 6)) \<and>
   fst (api_register no_faults (ex_clock 6) (ex_request ''LIC-B'' ''H1'')
         (snd (api_register no_faults (ex_clock 5) (ex_request ''LIC-A'' ''H1'') ex_world)))
     = HWID_IN_USE"
proof -
  have q: "query_license (ex_request ''LIC-A'' ''H1'') = Some ''LIC-A''" "''LIC-A'' \<noteq> []"
      "query_hwid (ex_request ''LIC-A'' ''H1'') = Some ''H1''" "''H1'' \<noteq> []"
      "query_license (ex_request ''LIC-B'' ''H1'') = Some ''LIC-B''" "''LIC-B'' \<noteq> []"
      "query_hwid (ex_request ''LIC-B'' ''H1'') = Some ''H1''" "''LIC-B'' \<noteq> ''LIC-A''"
    by (simp_all add: ex_request_def)
  have s: "fst (api_register no_faults (ex_clock 5) (ex_request ''LIC-A'' ''H1'') ex_world) = SUCCESS"
    by (simp add: api_register_nonempty [OF q(1-4)] run_defs ex_world_def ex_license_def ex_clock_def settings_of_def
          default_settings_def isLicenseExpired_def api_off_def)
  have l: "map_of (licenses ex_world) ''LIC-B'' = Some (ex_license (Some 1000))"
      "hwid (ex_license (Some 1000)) = []"
      "\<not> isLicenseExpired (ex_license (Some 1000)) (t_expiry (ex_clock 6))"
    by (simp_all add: ex_world_def ex_license_def ex_clock_def isLicenseExpired_def)
  from hwid_global_uniqueness [OF q s l] q s l show ?thesis by simp
qed

section \<open>Registering the same device again\<close>

text \<open>
  C4. When register(k, h) has succeeded, a second register(k, h) (the record still
  unexpired) succeeds as well; afterwards the record is bound to h, activatedAt and
  lastValidated carry the time of the second call, and history has gained exactly one
  REGISTER entry per call.
\<close>

theorem register_idempotent:
  assumes "query_license r1 = Some lk" "lk \<noteq> []" "query_hwid r1 = Some hw" "hw \<noteq> []"
    and "query_license r2 = Some lk" "query_hwid r2 = Some hw"
    and "fst (api_register no_faults c1 r1 w) = SUCCESS"
    and "map_of (licenses w) lk = Some lic"
    and "\<not> isLicenseExpired lic (t_expiry c2)"
  shows "(let w1 = snd (api_register no_faults c1 r1 w);
              w2 = snd (api_register no_faults c2 r2 w1)
          in fst (api_register no_faults c2 r2 w1) = SUCCESS \<and>
             map_option hwid (map_of (licenses w2) lk) = Some hw \<and>
             map_option activatedAt (map_of (licenses w2) lk) = Some (Iso (t_activated c2)) \<and>
             map_option lastValidated (map_of (licenses w2) lk) = Some (Some (t_validated c2)) \<and>
             map_option history (map_of (licenses w1) lk) =
               Some (history lic @ [register_entry c1 r1 hw]) \<and>
             map_option history (map_of (licenses w2) lk) =
               Some (history lic @ [register_entry c1 r1 hw, register_entry c2 r2 hw]))"
proof -
  let ?w1 = "snd (api_register no_faults c1 r1 w)"
  let ?w2 = "snd (api_register no_faults c2 r2 ?w1)"
  let ?u1 = "updatedLic c1 r1 hw lic"
  note f = register_success_facts [OF assms(1-4) assms(7)]
  from f(3) assms(8) have w1: "licenses ?w1 = set_doc lk ?u1 (licenses w)"
    by auto
  have m1: "map_of (licenses ?w1) lk = Some ?u1"
    using assms(8) by (simp add: w1 map_of_set_doc merge_updatedLic)
  have n1: "\<not> hwid_used_elsewhere (licenses ?w1) hw lk"
    using f(4) by (simp add: w1 used_elsewhere_set_doc)
  from f(2) have b: "banlist_doc ?w1 \<noteq> Some NotAnArray" "hw \<notin> set (banned_hwids ?w1)"
    by (simp_all add: api_register_docs api_register_views)
  from f(1) have e: "apiEnabled (settings_of ?w1) = Some True"
    by (simp add: api_register_views)
  have x: "\<not> isLicenseExpired ?u1 (t_expiry c2)"
    using assms(9) by (simp add: isLicenseExpired_def updatedLic_def)
  have s2: "fst (api_register no_faults c2 r2 ?w1) = SUCCESS"
    using register_fst_gated [OF assms(5) assms(2) assms(6) assms(4) e b m1 x] n1
    by (simp add: updatedLic_def)
  have w2: "licenses ?w2 = set_doc lk (updatedLic c2 r2 hw ?u1) (licenses ?w1)"
    using register_licenses_gated [OF assms(5) assms(2) assms(6) assms(4) m1, of c2] s2 by simp
  have m2: "map_of (licenses ?w2) lk = Some (updatedLic c2 r2 hw ?u1)"
    using m1 by (simp add: w2 map_of_set_doc merge_updatedLic)
  show ?thesis
    unfolding Let_def m1 m2 using s2 by (simp add: updatedLic_def)
qed

theorem register_idempotent_witness:
  "query_license (ex_request ''LIC-A'' ''H1'') = Some ''LIC-A'' \<and> ''LIC-A'' \<noteq> [] \<and>
   query_hwid (ex_request ''LIC-A'' ''H1'') = Some ''H1'' \<and> ''H1'' \<noteq> [] \<and>
   fst (api_register no_faults (ex_clock 5) (ex_request ''LIC-A'' ''H1'') ex_world) = SUCCESS \<and>
   map_of (licenses ex_world) ''LIC-A'' = Some (ex_license None) \<and>
   \<not> isLicenseExpired (ex_license None) (t_expiry (ex_clock 6)) \<and>
   fst (api_register no_faults (ex_clock 6) (ex_request ''LIC-A'' ''H1'')
         (snd (api_register no_faults (ex_clock 5) (ex_request ''LIC-A'' ''H1'') ex_world)))
     = SUCCESS \<and>
   map_option activatedAt
     (map_of (licenses (snd (api_register no_faults (ex_clock 6) (ex_request ''LIC-A'' ''H1'')
         (snd (api_register no_faults (ex_clock 5) (ex_request ''LIC-A'' ''H1'') ex_world)))))
        ''LIC-A'') = Some (Iso 6)"
proof -
  have q: "query_license (ex_request ''LIC-A'' ''H1'') = Some ''LIC-A''" "''LIC-A'' \<noteq> []"
      "query_hwid (ex_request ''LIC-A'' ''H1'') = Some ''H1''" "''H1'' \<noteq> []"
    by (simp_all add: ex_request_def)
  have s: "fst (api_register no_faults (ex_clock 5) (ex_request ''LIC-A'' ''H1'') ex_world) = SUCCESS"
    by (simp add: api_register_nonempty [OF q(1-4)] run_defs ex_world_def ex_license_def ex_clock_def settings_of_def
          default_settings_def isLicenseExpired_def api_off_def)
  have l: "map_of (licenses ex_world) ''LIC-A'' = Some (ex_license None)"
      "\<not> isLicenseExpired (ex_license None) (t_expiry (ex_clock 6))"
    by (simp_all add: ex_world_def ex_license_def ex_clock_def isLicenseExpired_def)
  from register_idempotent [OF q q(1) q(3) s l] q s l show ?thesis
    by (simp add: Let_def ex_clock_def)
qed

section \<open>The ban check\<close>

text \<open>
  C5, as amended. When the settings and the ban list are read without fault, the API is
  enabled and key and hwid are non-empty, a hwid of the ban list gets BANNED from both
  validate and register, whatever the license key, whether or not a record exists for it,
  and whatever that record holds: the ban check precedes every check on the license.
\<close>

theorem banned_after_api_gate:
  assumes "query_license r = Some lk" "lk \<noteq> []" "query_hwid r = Some hw" "hw \<noteq> []"
    and "\<not> dn SettingsGet" and "\<not> dn BanlistGet"
    and "apiEnabled (settings_of w) = Some True"
    and "banlist_doc w = Some (HwidArray xs)" and "hw \<in> set xs"
  shows "fst (api_validate dn c r w) = BANNED \<and> fst (api_register dn c r w) = BANNED"
  using assms(5-9)
  by (simp add: api_validate_nonempty [OF assms(1-4)] api_register_nonempty [OF assms(1-4)]
        run_defs api_off_def)

theorem banned_after_api_gate_witness:
  "query_license (ex_request ''NO-SUCH-KEY'' ''H9'') = Some ''NO-SUCH-KEY'' \<and>
   ''NO-SUCH-KEY'' \<noteq> [] \<and>
   query_hwid (ex_request ''NO-SUCH-KEY'' ''H9'') = Some ''H9'' \<and> ''H9'' \<noteq> [] \<and>
   \<not> no_faults SettingsGet \<and> \<not> no_faults BanlistGet \<and>
   apiEnabled (settings_of ex_world) = Some True \<and>
   banlist_doc ex_world = Some (HwidArray [''H9'']) \<and> ''H9'' \<in> set [''H9''] \<and>
   map_of (licenses ex_world) ''NO-SUCH-KEY'' = None \<and>
   fst (api_validate no_faults (ex_clock 5) (ex_request ''NO-SUCH-KEY'' ''H9'') ex_world) = BANNED \<and>
   fst (api_register no_faults (ex_clock 5) (ex_request ''NO-SUCH-KEY'' ''H9'') ex_world) = BANNED"
  using banned_after_api_gate [of "ex_request ''NO-SUCH-KEY'' ''H9''" "''NO-SUCH-KEY''" "''H9''"
      no_faults ex_world "[''H9'']" "ex_clock 5"]
  by (simp add: ex_request_def ex_world_def settings_of_def default_settings_def)

text \<open>
  C5 as stated fails: the ban check is not the first check. With the API switched off, a
  banned hwid gets API_DISABLED from both handlers.
\<close>

theorem banned_before_all_counterexample:
  "''H9'' \<in> set (banned_hwids ex_world_disabled) \<and>
   fst (api_validate no_faults (ex_clock 5) (ex_request ''LIC-A'' ''H9'') ex_world_disabled)
     = API_DISABLED \<and>
   fst (api_register no_faults (ex_clock 5) (ex_request ''LIC-A'' ''H9'') ex_world_disabled)
     = API_DISABLED \<and>
   API_DISABLED \<noteq> BANNED"
proof -
  have q: "query_license (ex_request ''LIC-A'' ''H9'') = Some ''LIC-A''" "''LIC-A'' \<noteq> []"
      "query_hwid (ex_request ''LIC-A'' ''H9'') = Some ''H9''" "''H9'' \<noteq> []"
    by (simp_all add: ex_request_def)
  show ?thesis
    by (simp add: api_validate_nonempty [OF q] api_register_nonempty [OF q] run_defs
          ex_world_disabled_def ex_world_def settings_of_def default_settings_def
          banned_hwids_def api_off_def)
qed

section \<open>Store faults\<close>

text \<open>
  C7, as amended. A failing store operation does not produce ERROR: each helper catches
  the failure and returns its fallback. For a request with non-empty key and hwid, a failed
  settings read gives API_DISABLED, and a failed read of the license record (API enabled,
  hwid not banned) gives INVALID_LICENSE, from both handlers. ERROR is answered exactly when
  the settings are read with the API enabled and the ban list is read and its hwids field is
  not an array. The answer is always one of the fixed outcome codes and carries no detail.
\<close>

theorem store_faults_fall_back:
  assumes "query_license r = Some lk" "lk \<noteq> []" "query_hwid r = Some hw" "hw \<noteq> []"
  shows "(dn SettingsGet \<longrightarrow>
            fst (api_validate dn c r w) = API_DISABLED \<and>
            fst (api_register dn c r w) = API_DISABLED)
       \<and> (\<not> dn SettingsGet \<and> apiEnabled (settings_of w) = Some True \<and>
          banlist_doc w \<noteq> Some NotAnArray \<and> hw \<notin> set (banned_hwids w) \<and>
          dn (LicenseGet lk) \<longrightarrow>
            fst (api_validate dn c r w) = INVALID_LICENSE \<and>
            fst (api_register dn c r w) = INVALID_LICENSE)
       \<and> (fst (api_validate dn c r w) = ERROR \<longleftrightarrow>
            \<not> dn SettingsGet \<and> apiEnabled (settings_of w) = Some True \<and>
            \<not> dn BanlistGet \<and> banlist_doc w = Some NotAnArray)
       \<and> (fst (api_register dn c r w) = ERROR \<longleftrightarrow>
            \<not> dn SettingsGet \<and> apiEnabled (settings_of w) = Some True \<and>
            \<not> dn BanlistGet \<and> banlist_doc w = Some NotAnArray)"
proof (intro conjI impI)
  assume "dn SettingsGet"
  then show "fst (api_validate dn c r w) = API_DISABLED"
    by (simp add: api_validate_nonempty [OF assms] run_defs api_off_def)
next
  assume "dn SettingsGet"
  then show "fst (api_register dn c r w) = API_DISABLED"
    by (simp add: api_register_nonempty [OF assms] run_defs api_off_def)
next
  assume a: "\<not> dn SettingsGet \<and> apiEnabled (settings_of w) = Some True \<and>
          banlist_doc w \<noteq> Some NotAnArray \<and> hw \<notin> set (banned_hwids w) \<and> dn (LicenseGet lk)"
  then show "fst (api_validate dn c r w) = INVALID_LICENSE"
    by (auto simp: api_validate_nonempty [OF assms] run_defs api_off_def banned_hwids_def
          split: option.splits hwids_field.splits)
  from a show "fst (api_register dn c r w) = INVALID_LICENSE"
    by (auto simp: api_register_nonempty [OF assms] run_defs api_off_def banned_hwids_def
          split: option.splits hwids_field.splits)
next
  show "fst (api_validate dn c r w) = ERROR \<longleftrightarrow>
            \<not> dn SettingsGet \<and> apiEnabled (settings_of w) = Some True \<and>
            \<not> dn BanlistGet \<and> banlist_doc w = Some NotAnArray"
    by (auto simp: api_validate_nonempty [OF assms] run_defs api_off_def
          split: option.splits hwids_field.splits if_splits)
next
  show "fst (api_register dn c r w) = ERROR \<longleftrightarrow>
            \<not> dn SettingsGet \<and> apiEnabled (settings_of w) = Some True \<and>
            \<not> dn BanlistGet \<and> banlist_doc w = Some NotAnArray"
    by (auto simp: api_register_nonempty [OF assms] run_defs api_off_def
          split: option.splits hwids_field.splits if_splits)
qed

theorem store_faults_fall_back_witness:
  "query_license (ex_request ''LIC-A'' ''H1'') = Some ''LIC-A'' \<and> ''LIC-A'' \<noteq> [] \<and>
   query_hwid (ex_request ''LIC-A'' ''H1'') = Some ''H1'' \<and> ''H1'' \<noteq> [] \<and>
   only_down SettingsGet SettingsGet \<and>
   fst (api_validate (only_down SettingsGet) (ex_clock 5) (ex_request ''LIC-A'' ''H1'') ex_world)
     = API_DISABLED \<and>
   \<not> no_faults SettingsGet \<and> apiEnabled (settings_of ex_world_malformed) = Some True \<and>
   \<not> no_faults BanlistGet \<and> banlist_doc ex_world_malformed = Some NotAnArray \<and>
   fst (api_register no_faults (ex_clock 5) (ex_request ''LIC-A'' ''H1'') ex_world_malformed)
     = ERROR"
  using store_faults_fall_back [of "ex_request ''LIC-A'' ''H1''" "''LIC-A''" "''H1''"
      "only_down SettingsGet" "ex_clock 5" ex_world]
    store_faults_fall_back [of "ex_request ''LIC-A'' ''H1''" "''LIC-A''" "''H1''"
      no_faults "ex_clock 5" ex_world_malformed]
  by (simp add: ex_request_def only_down_def ex_world_malformed_def ex_world_def settings_of_def
        default_settings_def)

text \<open>
  C7 as stated fails: with only the settings read failing the answer is API_DISABLED, with
  only the license read failing it is INVALID_LICENSE, and with only the ban list read
  failing a banned hwid passes the ban check.
\<close>

theorem store_fault_not_error_counterexample:
  "fst (api_validate (only_down SettingsGet) (ex_clock 5) (ex_request ''LIC-A'' ''H1'') ex_world)
     = API_DISABLED \<and>
   fst (api_validate (only_down (LicenseGet ''LIC-A'')) (ex_clock 5) (ex_request ''LIC-A'' ''H1'')
         ex_world) = INVALID_LICENSE \<and>
   isHWIDBanned ''H9'' (HwidArray (banned_hwids ex_world)) = Inr True \<and>
   fst (api_validate (only_down BanlistGet) (ex_clock 5) (ex_request ''LIC-A'' ''H9'') ex_world)
     = HWID_MISMATCH \<and>
   API_DISABLED \<noteq> ERROR \<and> INVALID_LICENSE \<noteq> ERROR \<and> HWID_MISMATCH \<noteq> ERROR"
proof -
  have q: "query_license (ex_request ''LIC-A'' ''H1'') = Some ''LIC-A''" "''LIC-A'' \<noteq> []"
      "query_hwid (ex_request ''LIC-A'' ''H1'') = Some ''H1''" "''H1'' \<noteq> []"
    by (simp_all add: ex_request_def)
  have q': "query_license (ex_request ''LIC-A'' ''H9'') = Some ''LIC-A''" "''LIC-A'' \<noteq> []"
      "query_hwid (ex_request ''LIC-A'' ''H9'') = Some ''H9''" "''H9'' \<noteq> []"
    by (simp_all add: ex_request_def)
  show ?thesis
    by (simp add: api_validate_nonempty [OF q] api_validate_nonempty [OF q'] run_defs
          only_down_def ex_world_def ex_license_def ex_clock_def settings_of_def
          default_settings_def banned_hwids_def isLicenseExpired_def api_off_def
          isHWIDBanned_def)
qed

section \<open>Duplicate license keys\<close>

text \<open>
  C6. A key that already has a record must not be created again, and the record must stay
  as it is. The single-key action checks this (lemma \<open>generate_license_rejects_duplicate\<close>);
  the bulk action does not: when the generated key is that of an existing bound record,
  the action redirects as on success and the record is written over, its hwid and
  activatedAt reset.
\<close>

theorem bulk_generate_overwrites_existing:
  "map_option hwid (map_of (licenses ex_store) ''LIC-00000000-00000000'') = Some ''H1'' \<and>
   fst (post_bulk_generate ''admin'' no_faults ex_envs 8 ex_admin_request ex_store)
     = Redirect ''/admin'' \<and>
   map_option hwid
     (map_of (licenses (snd (post_bulk_generate ''admin'' no_faults ex_envs 8 ex_admin_request
        ex_store))) ''LIC-00000000-00000000'') = Some [] \<and>
   map_option activatedAt
     (map_of (licenses (snd (post_bulk_generate ''admin'' no_faults ex_envs 8 ex_admin_request
        ex_store))) ''LIC-00000000-00000000'') = Some Blank"
  by (simp add: post_bulk_generate_def requireLogin_def bulk_generate_def bulk_loop.simps
        ex_admin_request_def ex_store_def ex_envs_def ex_key saveLicense_def issue_def
        merge_license_def ex_license_def Let_def)

section \<open>Banning a hwid\<close>

text \<open>
  C10. The admin ban action, without store faults and on a well-formed ban list, adds
  exactly the trimmed form of its input: the ban list afterwards is the old one, with the
  trimmed input appended unless that is empty or already present. An input that trims to the
  empty string leaves the store untouched; a padded input that was not in the list is not
  in it afterwards; and the ban check then matches the trimmed hwid.
\<close>

theorem ban_hwid_inserts_trimmed:
  assumes "session_user r = Some admin_username" and "body_hwid r = Some hw"
    and "banlist_doc w \<noteq> Some NotAnArray"
  shows "banned_hwids (snd (post_ban_hwid admin_username no_faults t r w)) =
           (if trim hw = [] \<or> trim hw \<in> set (banned_hwids w) then banned_hwids w
            else banned_hwids w @ [trim hw])
       \<and> (trim hw = [] \<longrightarrow>
            post_ban_hwid admin_username no_faults t r w = (Redirect ''/admin'', w))
       \<and> (hw \<noteq> trim hw \<and> hw \<notin> set (banned_hwids w) \<longrightarrow>
            hw \<notin> set (banned_hwids (snd (post_ban_hwid admin_username no_faults t r w))))
       \<and> (trim hw \<noteq> [] \<longrightarrow>
            isHWIDBanned (trim hw)
              (HwidArray (banned_hwids (snd (post_ban_hwid admin_username no_faults t r w))))
              = Inr True)"
proof -
  have p: "post_ban_hwid admin_username no_faults t r w = ban_hwid no_faults t r w"
    using assms(1) by (simp add: post_ban_hwid_def requireLogin_def)
  note b = ban_hwid_banlist [OF assms(2,3), of t]
  have 2: "trim hw = [] \<longrightarrow> ban_hwid no_faults t r w = (Redirect ''/admin'', w)"
    using assms(2) by (simp add: ban_hwid_def)
  have 3: "hw \<noteq> trim hw \<and> hw \<notin> set (banned_hwids w) \<longrightarrow>
            hw \<notin> set (banned_hwids (snd (ban_hwid no_faults t r w)))"
    unfolding b by auto
  have 4: "trim hw \<noteq> [] \<longrightarrow>
            isHWIDBanned (trim hw) (HwidArray (banned_hwids (snd (ban_hwid no_faults t r w))))
              = Inr True"
    unfolding b by (simp add: isHWIDBanned_def)
  from b 2 3 4 show ?thesis unfolding p by blast
qed

theorem ban_hwid_inserts_trimmed_witness:
  "session_user (ex_ban_request ''  H7 '') = Some ''admin'' \<and>
   body_hwid (ex_ban_request ''  H7 '') = Some ''  H7 '' \<and>
   banlist_doc ex_world \<noteq> Some NotAnArray \<and>
   trim ''  H7 '' = ''H7'' \<and>
   banned_hwids (snd (post_ban_hwid ''admin'' no_faults 9 (ex_ban_request ''  H7 '') ex_world))
     = [''H9'', ''H7'']"
  using ban_hwid_inserts_trimmed [of "ex_ban_request ''  H7 ''" "''admin''" "''  H7 ''" ex_world 9]
  by (simp add: ex_ban_request_def ex_world_def banned_hwids_def trim_def is_ws_def)

end
